theory Spec2Isabelle
  imports Main
begin

section \<open>Data model\<close>

text \<open>
  The scoring pipeline of the prediction pool lives in two versions of the application
  module: \<^verbatim>\<open>old_files_backup/app copy 8.py\<close> (suffix \<open>_copy8\<close> below) and
  \<^verbatim>\<open>old_files_backup/app.py\<close> (suffix \<open>_app\<close>). Where the two files have the
  same text (\<open>is_prime_game\<close>, the scoring of one prediction,
  \<open>todos_jogos_semana_finalizados\<close>, the aggregate query) there is one definition.

  The SQLAlchemy models become records. Only the columns that the scoring pipeline reads
  or writes are kept. The primary key \<open>id\<close> of \<open>Participante\<close> and of \<open>Jogo\<close> is named
  \<open>id_participante\<close> and \<open>id_jogo\<close>; the columns \<open>participante_id\<close> and \<open>semana\<close> of
  \<open>PontuacaoRodada\<close> carry the prefix \<open>pr_\<close>, since record fields share one name space.
  The result columns of \<open>Jogo\<close>, which the code tests against \<open>None\<close>, are
  \<open>option\<close>s; Python integers are \<open>int\<close>. \<open>pontuacao_recebida\<close> has the default 0
  and is only ever assigned an integer, so it is an \<open>int\<close> and its SQL sum is an \<open>int\<close>.
\<close>

text \<open>
  A naive \<open>datetime\<close> as stored in column \<open>data_hora\<close>. \<open>replace(tzinfo=timezone.utc)\<close>
  changes none of these fields.
\<close>

record datetime =
  year :: int
  month :: int
  day :: int
  hour :: int
  minute :: int

record Participante =
  id_participante :: int
  nome :: string

record Jogo =
  id_jogo :: int
  semana :: int
  data_hora :: datetime
  resultado :: "string option"
  placar_time1_final :: "int option"
  placar_time2_final :: "int option"

record Palpite =
  participante_id :: int
  jogo_id :: int
  escolha :: string
  placar_time1 :: int
  placar_time2 :: int
  pontuacao_recebida :: int

record PontuacaoRodada =
  pr_participante_id :: int
  pr_semana :: int
  pontos_f1 :: int

text \<open>
  The database session: the four tables as lists of rows, in insertion order. Neither
  procedure commits, so the staged state of the session is the state.
\<close>

record db =
  participantes :: "Participante list"
  jogos :: "Jogo list"
  palpites :: "Palpite list"
  pontuacoes_rodada :: "PontuacaoRodada list"

section \<open>The weekday of a date\<close>

text \<open>
  \<open>datetime.weekday()\<close> of the Python standard library: Monday is 0 and Sunday is 6. It
  is \<open>(toordinal() + 6) % 7\<close>, where the ordinal of a date counts the days from
  0001-01-01 (ordinal 1) in the proleptic Gregorian calendar. Python's \<open>//\<close> and \<open>%\<close>
  on integers are \<open>div\<close> and \<open>mod\<close> on \<open>int\<close>.
\<close>

definition is_leap :: "int \<Rightarrow> bool" where
  "is_leap y = (y mod 4 = 0 \<and> (y mod 100 \<noteq> 0 \<or> y mod 400 = 0))"

definition days_before_year :: "int \<Rightarrow> int" where
  "days_before_year yr = (let y = yr - 1 in y * 365 + y div 4 - y div 100 + y div 400)"

definition DAYS_BEFORE_MONTH :: "int list" where
  "DAYS_BEFORE_MONTH = [-1, 0, 31, 59, 90, 120, 151, 181, 212, 243, 273, 304, 334]"

definition days_before_month :: "int \<Rightarrow> int \<Rightarrow> int" where
  "days_before_month y m =
     DAYS_BEFORE_MONTH ! nat m + (if m > 2 \<and> is_leap y then 1 else 0)"

definition ymd2ord :: "int \<Rightarrow> int \<Rightarrow> int \<Rightarrow> int" where
  "ymd2ord y m d = days_before_year y + days_before_month y m + d"

definition weekday :: "datetime \<Rightarrow> int" where
  "weekday dt = (ymd2ord (year dt) (month dt) (day dt) + 6) mod 7"

section \<open>Prime games\<close>

definition is_prime_game :: "Jogo \<Rightarrow> bool" where
  "is_prime_game jogo =
     (let data_hora_utc = data_hora jogo;
          dia_semana_utc = weekday data_hora_utc;
          hora_utc = hour data_hora_utc;
          is_madrugada_utc = (hora_utc \<ge> 0 \<and> hora_utc \<le> 4)
      in if is_madrugada_utc \<and> (dia_semana_utc = 4 \<or> dia_semana_utc = 0 \<or> dia_semana_utc = 1)
         then True else False)"

section \<open>Scoring the predictions of one game\<close>

text \<open>
  The body of the loop over the predictions of a game whose result is set: the value of
  \<open>pontuacao_atual\<close> at the end of one iteration. \<open>res\<close>, \<open>final1\<close> and \<open>final2\<close> are
  the game's \<open>resultado\<close>, \<open>placar_time1_final\<close> and \<open>placar_time2_final\<close>.
\<close>

definition pontuacao_atual :: "bool \<Rightarrow> string \<Rightarrow> int \<Rightarrow> int \<Rightarrow> Palpite \<Rightarrow> int" where
  "pontuacao_atual prime_game res final1 final2 palpite =
     (if escolha palpite = res then
        (let p1 = 0 + 1;
             p2 = (if prime_game then p1 + 3 else p1)
         in if placar_time1 palpite = final1 \<and> placar_time2 palpite = final2 then p2 + 1
            else
              (let palpite_diferenca = \<bar>placar_time1 palpite - placar_time2 palpite\<bar>;
                   jogo_diferenca = \<bar>final1 - final2\<bar>
               in if palpite_diferenca = jogo_diferenca then p2 + 1 else p2))
      else 0)"

text \<open>The write at the end of the iteration: only a changed value is stored.\<close>

definition atualizar_palpite :: "Palpite \<Rightarrow> int \<Rightarrow> Palpite" where
  "atualizar_palpite palpite pontos =
     (if pontuacao_recebida palpite \<noteq> pontos
      then palpite\<lparr>pontuacao_recebida := pontos\<rparr> else palpite)"

text \<open>
  \<open>calcular_e_atualizar_pontuacoes_jogo\<close> of \<^verbatim>\<open>app copy 8.py\<close>. The query
  \<open>Palpite.query.filter_by(jogo_id=jogo.id)\<close> selects the rows the loop mutates; the
  other rows of the table stay as they are.
\<close>

definition calcular_e_atualizar_pontuacoes_jogo_copy8 :: "Jogo \<Rightarrow> db \<Rightarrow> bool \<times> db" where
  "calcular_e_atualizar_pontuacoes_jogo_copy8 jogo st =
     (if resultado jogo = None \<or> placar_time1_final jogo = None \<or> placar_time2_final jogo = None
      then
        (False,
         st\<lparr>palpites :=
              map (\<lambda>palpite.
                     if jogo_id palpite = id_jogo jogo
                     then (if pontuacao_recebida palpite \<noteq> 0
                           then palpite\<lparr>pontuacao_recebida := 0\<rparr> else palpite)
                     else palpite)
                  (palpites st)\<rparr>)
      else
        (let prime_game = is_prime_game jogo
         in (True,
             st\<lparr>palpites :=
                  map (\<lambda>palpite.
                         if jogo_id palpite = id_jogo jogo
                         then atualizar_palpite palpite
                                (pontuacao_atual prime_game (the (resultado jogo))
                                   (the (placar_time1_final jogo)) (the (placar_time2_final jogo))
                                   palpite)
                         else palpite)
                      (palpites st)\<rparr>)))"

text \<open>
  \<open>calcular_e_atualizar_pontuacoes_jogo\<close> of \<^verbatim>\<open>app.py\<close>: the same loop, but a game
  without a result returns at once.
\<close>

definition calcular_e_atualizar_pontuacoes_jogo_app :: "Jogo \<Rightarrow> db \<Rightarrow> bool \<times> db" where
  "calcular_e_atualizar_pontuacoes_jogo_app jogo st =
     (if resultado jogo = None \<or> placar_time1_final jogo = None \<or> placar_time2_final jogo = None
      then (False, st)
      else
        (let prime_game = is_prime_game jogo
         in (True,
             st\<lparr>palpites :=
                  map (\<lambda>palpite.
                         if jogo_id palpite = id_jogo jogo
                         then atualizar_palpite palpite
                                (pontuacao_atual prime_game (the (resultado jogo))
                                   (the (placar_time1_final jogo)) (the (placar_time2_final jogo))
                                   palpite)
                         else palpite)
                      (palpites st)\<rparr>)))"

section \<open>Round completeness\<close>

text \<open>The loop of \<open>todos_jogos_semana_finalizados\<close>, with its early return.\<close>

fun todos_com_resultado :: "Jogo list \<Rightarrow> bool" where
  "todos_com_resultado [] = True"
| "todos_com_resultado (jogo # resto) =
     (if resultado jogo = None \<or> placar_time1_final jogo = None \<or> placar_time2_final jogo = None
      then False else todos_com_resultado resto)"

definition todos_jogos_semana_finalizados :: "int \<Rightarrow> db \<Rightarrow> bool" where
  "todos_jogos_semana_finalizados sem st =
     (let jogos_na_semana = filter (\<lambda>jogo. semana jogo = sem) (jogos st)
      in if jogos_na_semana = [] then False else todos_com_resultado jogos_na_semana)"

section \<open>Ranking a round\<close>

text \<open>
  The aggregate query of \<open>calcular_pontos_f1_por_rodada\<close>, the same in both files:
  \<open>Participante\<close> joined with \<open>Palpite\<close> on the participant and with \<open>Jogo\<close> on the
  game, restricted to the games of the round, grouped by participant id and name, with the
  sum of \<open>pontuacao_recebida\<close>, ordered by that sum, descending. SQL leaves the order
  among equal sums open; here it is the order in which the groups first appear in the join.
  A row of the result is \<open>(participante_id, nome, total_pontos_raw)\<close>.
\<close>

definition linhas_da_semana :: "int \<Rightarrow> db \<Rightarrow> (Participante \<times> Palpite \<times> Jogo) list" where
  "linhas_da_semana sem st =
     [(p, palpite, jogo).
        p \<leftarrow> participantes st,
        palpite \<leftarrow> palpites st, participante_id palpite = id_participante p,
        jogo \<leftarrow> jogos st, jogo_id palpite = id_jogo jogo, semana jogo = sem]"

definition pontuacoes_raw_por_participante :: "int \<Rightarrow> db \<Rightarrow> (int \<times> string \<times> int) list" where
  "pontuacoes_raw_por_participante sem st =
     (let linhas = linhas_da_semana sem st;
          grupos = remdups (map (\<lambda>(p, palpite, jogo). (id_participante p, nome p)) linhas);
          totais =
            map (\<lambda>(pid, nm).
                   (pid, nm,
                    sum_list
                      (map (\<lambda>(p, palpite, jogo). pontuacao_recebida palpite)
                         (filter (\<lambda>(p, palpite, jogo). id_participante p = pid \<and> nome p = nm)
                            linhas))))
                grupos
      in sort_key (\<lambda>(pid, nm, total_pontos_raw). - total_pontos_raw) totais)"

definition pontos_f1_tabela :: "int list" where
  "pontos_f1_tabela = [25, 18, 15, 12, 10, 8, 6, 4, 2, 1]"

text \<open>
  Two steps of the loop body that both files share: the update of \<open>posicao_atual\<close> in
  iteration \<open>i\<close>, and the points of a position.
\<close>

definition nova_posicao :: "nat \<Rightarrow> nat \<Rightarrow> int \<Rightarrow> int \<Rightarrow> nat" where
  "nova_posicao i posicao_atual ultima_pontuacao_raw total_pontos_raw =
     (if total_pontos_raw < ultima_pontuacao_raw then i else posicao_atual)"

definition pontos_da_posicao :: "nat \<Rightarrow> int" where
  "pontos_da_posicao posicao_atual =
     (if posicao_atual < length pontos_f1_tabela then pontos_f1_tabela ! posicao_atual else 0)"

text \<open>
  The loop of \<^verbatim>\<open>app copy 8.py\<close> over the rows of the aggregate, from iteration \<open>i\<close>
  with the loop variables \<open>posicao_atual\<close> and \<open>ultima_pontuacao_raw\<close>; \<open>tabela\<close> is the
  \<open>PontuacaoRodada\<close> table. Every iteration that does not break adds a row.
\<close>

fun percorrer_copy8 ::
  "int \<Rightarrow> nat \<Rightarrow> nat \<Rightarrow> int \<Rightarrow> (int \<times> string \<times> int) list \<Rightarrow> PontuacaoRodada list \<Rightarrow> PontuacaoRodada list"
where
  "percorrer_copy8 sem i posicao_atual ultima_pontuacao_raw [] tabela = tabela"
| "percorrer_copy8 sem i posicao_atual ultima_pontuacao_raw ((pid, nm, total_pontos_raw) # resto) tabela =
     (if total_pontos_raw = 0 then tabela
      else
        (let posicao = nova_posicao i posicao_atual ultima_pontuacao_raw total_pontos_raw;
             nova_pontuacao_rodada =
               \<lparr>pr_participante_id = pid, pr_semana = sem, pontos_f1 = pontos_da_posicao posicao\<rparr>
         in percorrer_copy8 sem (i + 1) posicao total_pontos_raw resto
              (tabela @ [nova_pontuacao_rodada])))"

definition calcular_pontos_f1_por_rodada_copy8 :: "int \<Rightarrow> db \<Rightarrow> db" where
  "calcular_pontos_f1_por_rodada_copy8 sem st =
     (let agregado = pontuacoes_raw_por_participante sem st;
          restantes = filter (\<lambda>r. pr_semana r \<noteq> sem) (pontuacoes_rodada st)
      in if agregado \<noteq> []
         then st\<lparr>pontuacoes_rodada := percorrer_copy8 sem 0 0 (- 1) agregado restantes\<rparr>
         else st\<lparr>pontuacoes_rodada := restantes\<rparr>)"

text \<open>
  The write of one iteration in \<^verbatim>\<open>app.py\<close>: the first row of the participant and
  round, if there is one, gets the points (when they differ); otherwise a new row is
  added. The session flushes before the lookup, so rows added earlier in the run are seen.
\<close>

fun gravar_app :: "int \<Rightarrow> int \<Rightarrow> int \<Rightarrow> PontuacaoRodada list \<Rightarrow> PontuacaoRodada list" where
  "gravar_app pid sem pontos [] =
     [\<lparr>pr_participante_id = pid, pr_semana = sem, pontos_f1 = pontos\<rparr>]"
| "gravar_app pid sem pontos (existente # resto) =
     (if pr_participante_id existente = pid \<and> pr_semana existente = sem
      then (if pontos_f1 existente \<noteq> pontos
            then existente\<lparr>pontos_f1 := pontos\<rparr> # resto else existente # resto)
      else existente # gravar_app pid sem pontos resto)"

fun percorrer_app ::
  "int \<Rightarrow> nat \<Rightarrow> nat \<Rightarrow> int \<Rightarrow> (int \<times> string \<times> int) list \<Rightarrow> PontuacaoRodada list \<Rightarrow> PontuacaoRodada list"
where
  "percorrer_app sem i posicao_atual ultima_pontuacao_raw [] tabela = tabela"
| "percorrer_app sem i posicao_atual ultima_pontuacao_raw ((pid, nm, total_pontos_raw) # resto) tabela =
     (if total_pontos_raw = 0 then tabela
      else
        (let posicao = nova_posicao i posicao_atual ultima_pontuacao_raw total_pontos_raw
         in percorrer_app sem (i + 1) posicao total_pontos_raw resto
              (gravar_app pid sem (pontos_da_posicao posicao) tabela)))"

definition calcular_pontos_f1_por_rodada_app :: "int \<Rightarrow> db \<Rightarrow> db" where
  "calcular_pontos_f1_por_rodada_app sem st =
     (let agregado = pontuacoes_raw_por_participante sem st
      in if agregado \<noteq> []
         then st\<lparr>pontuacoes_rodada := percorrer_app sem 0 0 (- 1) agregado (pontuacoes_rodada st)\<rparr>
         else st)"

text \<open>
  The positions the loop assigns: the value of \<open>posicao_atual\<close> in each iteration that
  does not break, in order. Both files compute it the same way.
\<close>

fun posicoes :: "nat \<Rightarrow> nat \<Rightarrow> int \<Rightarrow> (int \<times> string \<times> int) list \<Rightarrow> nat list" where
  "posicoes i posicao_atual ultima_pontuacao_raw [] = []"
| "posicoes i posicao_atual ultima_pontuacao_raw ((pid, nm, total_pontos_raw) # resto) =
     (if total_pontos_raw = 0 then []
      else
        (let posicao = nova_posicao i posicao_atual ultima_pontuacao_raw total_pontos_raw
         in posicao # posicoes (i + 1) posicao total_pontos_raw resto))"

section \<open>Constraints of the schema\<close>

text \<open>
  \<open>Participante.id\<close> is a primary key, and \<open>PontuacaoRodada\<close> carries the unique
  constraint \<open>_participante_semana_uc\<close> on \<open>(participante_id, semana)\<close>.
\<close>

definition participante_pk :: "db \<Rightarrow> bool" where
  "participante_pk st = distinct (map id_participante (participantes st))"

definition chave :: "PontuacaoRodada \<Rightarrow> int \<times> int" where
  "chave r = (pr_participante_id r, pr_semana r)"

definition participante_semana_uc :: "db \<Rightarrow> bool" where
  "participante_semana_uc st = distinct (map chave (pontuacoes_rodada st))"

text \<open>The \<open>PontuacaoRodada\<close> rows of one round, and the rows of the other rounds.\<close>

definition da_semana :: "int \<Rightarrow> PontuacaoRodada list \<Rightarrow> PontuacaoRodada list" where
  "da_semana sem tabela = filter (\<lambda>r. pr_semana r = sem) tabela"

definition de_outras_semanas :: "int \<Rightarrow> PontuacaoRodada list \<Rightarrow> PontuacaoRodada list" where
  "de_outras_semanas sem tabela = filter (\<lambda>r. pr_semana r \<noteq> sem) tabela"

section \<open>Example data\<close>

text \<open>
  2024-09-06 is a Friday, 2024-09-07 a Saturday, 2024-09-08 a Sunday and 2024-09-09 a
  Monday.
\<close>

definition sexta_02h :: datetime where
  "sexta_02h = \<lparr>year = 2024, month = 9, day = 6, hour = 2, minute = 0\<rparr>"

definition sabado_18h :: datetime where
  "sabado_18h = \<lparr>year = 2024, month = 9, day = 7, hour = 18, minute = 0\<rparr>"

definition domingo_17h :: datetime where
  "domingo_17h = \<lparr>year = 2024, month = 9, day = 8, hour = 17, minute = 0\<rparr>"

definition segunda_00h :: datetime where
  "segunda_00h = \<lparr>year = 2024, month = 9, day = 9, hour = 0, minute = 20\<rparr>"

text \<open>A game that ended 24 to 17 for the first team, and a game without a result.\<close>

definition jogo_finalizado :: "int \<Rightarrow> int \<Rightarrow> datetime \<Rightarrow> Jogo" where
  "jogo_finalizado k sem dt =
     \<lparr>id_jogo = k, semana = sem, data_hora = dt, resultado = Some ''time1_vence'',
      placar_time1_final = Some 24, placar_time2_final = Some 17\<rparr>"

definition jogo_sem_resultado :: "int \<Rightarrow> int \<Rightarrow> datetime \<Rightarrow> Jogo" where
  "jogo_sem_resultado k sem dt =
     \<lparr>id_jogo = k, semana = sem, data_hora = dt, resultado = None,
      placar_time1_final = None, placar_time2_final = None\<rparr>"

text \<open>A prediction with its stored raw points.\<close>

definition palpite_de :: "int \<Rightarrow> int \<Rightarrow> string \<Rightarrow> int \<Rightarrow> int \<Rightarrow> int \<Rightarrow> Palpite" where
  "palpite_de p j e s1 s2 pontos =
     \<lparr>participante_id = p, jogo_id = j, escolha = e, placar_time1 = s1, placar_time2 = s2,
      pontuacao_recebida = pontos\<rparr>"

text \<open>
  Round 1 with two prime games and one other game; the raw totals are 10 for ana, 10
  for bia and 7 for caio. Round 2 has no game.
\<close>

definition rodada_10_10_7 :: db where
  "rodada_10_10_7 =
     \<lparr>participantes =
        [\<lparr>id_participante = 1, nome = ''ana''\<rparr>, \<lparr>id_participante = 2, nome = ''bia''\<rparr>,
         \<lparr>id_participante = 3, nome = ''caio''\<rparr>],
      jogos =
        [jogo_finalizado 1 1 sexta_02h, jogo_finalizado 2 1 segunda_00h,
         jogo_finalizado 3 1 domingo_17h],
      palpites =
        [palpite_de 1 1 ''time1_vence'' 24 17 5, palpite_de 1 2 ''time1_vence'' 27 20 5,
         palpite_de 1 3 ''time2_vence'' 10 20 0,
         palpite_de 2 1 ''time1_vence'' 30 23 5, palpite_de 2 2 ''time1_vence'' 24 17 5,
         palpite_de 2 3 ''time2_vence'' 14 21 0,
         palpite_de 3 1 ''time1_vence'' 24 17 5, palpite_de 3 2 ''time2_vence'' 17 24 0,
         palpite_de 3 3 ''time1_vence'' 24 17 2],
      pontuacoes_rodada = []\<rparr>"

text \<open>
  Round 1 with one prime game and eleven participants: ten of them hold 5 raw points, the
  eleventh holds 4.
\<close>

definition rodada_onze :: db where
  "rodada_onze =
     \<lparr>participantes =
        map (\<lambda>k. \<lparr>id_participante = k, nome = replicate (nat k) (CHR ''p'')\<rparr>) [1..11],
      jogos = [jogo_finalizado 1 1 sexta_02h],
      palpites =
        map (\<lambda>k. palpite_de k 1 ''time1_vence'' 24 17 5) [1..10]
        @ [palpite_de 11 1 ''time1_vence'' 21 20 4],
      pontuacoes_rodada = []\<rparr>"

text \<open>
  Round 1 after a result was corrected: bia holds 18 points from an earlier run of the
  ranking and now has a raw total of 0; a row of round 2 is there as well.
\<close>

definition rodada_recalculada :: db where
  "rodada_recalculada =
     \<lparr>participantes =
        [\<lparr>id_participante = 1, nome = ''ana''\<rparr>, \<lparr>id_participante = 2, nome = ''bia''\<rparr>],
      jogos = [jogo_finalizado 1 1 sexta_02h],
      palpites =
        [palpite_de 1 1 ''time1_vence'' 24 17 5, palpite_de 2 1 ''time2_vence'' 17 24 0],
      pontuacoes_rodada =
        [\<lparr>pr_participante_id = 1, pr_semana = 1, pontos_f1 = 25\<rparr>,
         \<lparr>pr_participante_id = 2, pr_semana = 1, pontos_f1 = 18\<rparr>,
         \<lparr>pr_participante_id = 2, pr_semana = 2, pontos_f1 = 25\<rparr>]\<rparr>"

text \<open>Round 1 with three games, one of them without a result; stored raw points 5 and 2.\<close>

definition rodada_incompleta :: db where
  "rodada_incompleta =
     \<lparr>participantes =
        [\<lparr>id_participante = 1, nome = ''ana''\<rparr>, \<lparr>id_participante = 2, nome = ''bia''\<rparr>],
      jogos =
        [jogo_finalizado 1 1 sexta_02h, jogo_sem_resultado 2 1 domingo_17h,
         jogo_finalizado 3 1 segunda_00h],
      palpites =
        [palpite_de 1 2 ''time1_vence'' 24 17 2, palpite_de 2 2 ''time2_vence'' 17 24 0,
         palpite_de 1 1 ''time1_vence'' 24 17 5],
      pontuacoes_rodada = []\<rparr>"

section \<open>Properties of the aggregate and of the ranking loops\<close>



lemma percorrer_copy8_zip:
  "percorrer_copy8 sem i pos ult agg t =
     t @ map (\<lambda>((pid, nm, tot), posicao).
                \<lparr>pr_participante_id = pid, pr_semana = sem, pontos_f1 = pontos_da_posicao posicao\<rparr>)
             (zip agg (posicoes i pos ult agg))"
  by (induction agg arbitrary: i pos ult t) (auto simp: Let_def)

lemma zip_posicoes_fst:
  "map fst (zip agg (posicoes i pos ult agg)) = takeWhile (\<lambda>(pid, nm, tot). tot \<noteq> 0) agg"
  by (induction agg arbitrary: i pos ult) (auto simp: Let_def)

lemma length_posicoes:
  "length (posicoes i pos ult agg) = length (takeWhile (\<lambda>(pid, nm, tot). tot \<noteq> 0) agg)"
  by (induction agg arbitrary: i pos ult) (auto simp: Let_def)

lemma percorrer_copy8_takeWhile:
  "percorrer_copy8 sem i pos ult (takeWhile (\<lambda>(pid, nm, tot). tot \<noteq> 0) agg) t = percorrer_copy8 sem i pos ult agg t"
  by (induction agg arbitrary: i pos ult t) (auto simp: Let_def)

lemma percorrer_app_takeWhile:
  "percorrer_app sem i pos ult (takeWhile (\<lambda>(pid, nm, tot). tot \<noteq> 0) agg) t = percorrer_app sem i pos ult agg t"
  by (induction agg arbitrary: i pos ult t) (auto simp: Let_def)


lemma gravar_app_set:
  "distinct (map chave t) \<Longrightarrow>
   set (gravar_app pid sem pts t) =
     {r \<in> set t. chave r \<noteq> (pid, sem)} \<union> {\<lparr>pr_participante_id = pid, pr_semana = sem, pontos_f1 = pts\<rparr>}"
proof (induction t)
  case Nil
  then show ?case by simp
next
  case (Cons r t)
  let ?novo = "\<lparr>pr_participante_id = pid, pr_semana = sem, pontos_f1 = pts\<rparr>"
  show ?case
  proof (cases "pr_participante_id r = pid \<and> pr_semana r = sem")
    case True
    then have cr: "chave r = (pid, sem)" by (simp add: chave_def)
    have "chave r \<notin> chave ` set t" using Cons.prems by simp
    with cr have "\<forall>x\<in>set t. chave x \<noteq> (pid, sem)"
      by (metis image_eqI)
    then have filt: "{x \<in> set t. chave x \<noteq> (pid, sem)} = set t" by blast
    have "gravar_app pid sem pts (r # t) = ?novo # t"
      using True by simp
    then have "set (gravar_app pid sem pts (r # t)) = insert ?novo (set t)" by simp
    moreover have "{x \<in> set (r # t). chave x \<noteq> (pid, sem)} = {x \<in> set t. chave x \<noteq> (pid, sem)}"
      using cr by auto
    ultimately show ?thesis using filt by simp
  next
    case False
    then have neq: "chave r \<noteq> (pid, sem)" by (auto simp: chave_def)
    have "gravar_app pid sem pts (r # t) = r # gravar_app pid sem pts t"
      using False by auto
    then have A: "set (gravar_app pid sem pts (r # t)) =
        insert r ({x \<in> set t. chave x \<noteq> (pid, sem)} \<union> {?novo})"
      using Cons by simp
    have B: "{x \<in> set (r # t). chave x \<noteq> (pid, sem)} = insert r {x \<in> set t. chave x \<noteq> (pid, sem)}"
      using neq by auto
    show ?thesis unfolding A B by blast
  qed
qed

lemma gravar_app_chaves:
  "set (map chave (gravar_app pid sem pts t)) = insert (pid, sem) (set (map chave t))"
  by (induction t) (auto simp: chave_def)

lemma gravar_app_distinct:
  "distinct (map chave t) \<Longrightarrow> distinct (map chave (gravar_app pid sem pts t))"
proof (induction t)
  case Nil
  then show ?case by simp
next
  case (Cons r t)
  show ?case
  proof (cases "pr_participante_id r = pid \<and> pr_semana r = sem")
    case True
    have "chave (r\<lparr>pontos_f1 := pts\<rparr>) = chave r" by (simp add: chave_def)
    with True Cons.prems show ?thesis by simp
  next
    case False
    then have neq: "chave r \<noteq> (pid, sem)" by (auto simp: chave_def)
    have "chave r \<notin> set (map chave t)" using Cons.prems by simp
    with neq have "chave r \<notin> set (map chave (gravar_app pid sem pts t))"
      unfolding gravar_app_chaves by simp
    moreover have "distinct (map chave (gravar_app pid sem pts t))"
      using Cons by simp
    ultimately show ?thesis using False by auto
  qed
qed

lemma percorrer_app_set:
  "distinct (map fst agg) \<Longrightarrow> distinct (map chave t) \<Longrightarrow>
   set (percorrer_app sem i pos ult agg t) =
     {r \<in> set t. \<not> (pr_semana r = sem \<and>
                      pr_participante_id r \<in> fst ` set (takeWhile (\<lambda>(pid, nm, tot). tot \<noteq> 0) agg))}
     \<union> set (map (\<lambda>((pid, nm, tot), posicao).
                \<lparr>pr_participante_id = pid, pr_semana = sem, pontos_f1 = pontos_da_posicao posicao\<rparr>)
             (zip agg (posicoes i pos ult agg)))"
proof (induction agg arbitrary: i pos ult t)
  case Nil
  then show ?case by simp
next
  case (Cons e agg)
  obtain pid nm tot where e: "e = (pid, nm, tot)" by (cases e)
  show ?case
  proof (cases "tot = 0")
    case True
    then show ?thesis by (simp add: e)
  next
    case False
    let ?p = "nova_posicao i pos ult tot"
    let ?t = "gravar_app pid sem (pontos_da_posicao ?p) t"
    let ?novo = "\<lparr>pr_participante_id = pid, pr_semana = sem, pontos_f1 = pontos_da_posicao ?p\<rparr>"
    let ?A = "fst ` set (takeWhile (\<lambda>(pid, nm, tot). tot \<noteq> 0) agg)"
    have d: "distinct (map fst agg)" and nin: "pid \<notin> fst ` set agg"
      using Cons.prems(1) by (auto simp: e)
    have dt: "distinct (map chave ?t)" using Cons.prems(2) by (rule gravar_app_distinct)
    have st: "set ?t = {r \<in> set t. chave r \<noteq> (pid, sem)} \<union> {?novo}"
      using Cons.prems(2) by (rule gravar_app_set)
    have ninA: "pid \<notin> ?A" using nin set_takeWhileD by fastforce
    then have ninA': "\<And>nm tot. (pid, nm, tot) \<notin> set (takeWhile (\<lambda>(pid, nm, tot). tot \<noteq> 0) agg)"
      by force
    have "set (percorrer_app sem i pos ult (e # agg) t) = set (percorrer_app sem (i + 1) ?p tot agg ?t)"
      using False by (simp add: e Let_def)
    also have "\<dots> = {r \<in> set ?t. \<not> (pr_semana r = sem \<and> pr_participante_id r \<in> ?A)}
       \<union> set (map (\<lambda>((pid, nm, tot), posicao).
                \<lparr>pr_participante_id = pid, pr_semana = sem, pontos_f1 = pontos_da_posicao posicao\<rparr>)
             (zip agg (posicoes (i + 1) ?p tot agg)))"
      using Cons.IH[OF d dt] .
    also have "{r \<in> set ?t. \<not> (pr_semana r = sem \<and> pr_participante_id r \<in> ?A)} =
       {r \<in> set t. \<not> (pr_semana r = sem \<and> pr_participante_id r \<in> insert pid ?A)} \<union> {?novo}"
      unfolding st using ninA' by (auto simp: chave_def)
    finally show ?thesis using False ninA' by (auto simp: e Let_def)
  qed
qed

lemma linhas_participante:
  "(p, palpite, jogo) \<in> set (linhas_da_semana sem st) \<Longrightarrow> p \<in> set (participantes st)"
  by (auto simp: linhas_da_semana_def split: if_splits)

lemma distinct_map_fst_sort_key:
  "distinct (map fst (sort_key f xs)) = distinct (map fst xs)"
  by (simp add: distinct_map)

lemma agregado_distinct:
  assumes "participante_pk st"
  shows "distinct (map fst (pontuacoes_raw_por_participante sem st))"
proof -
  let ?linhas = "linhas_da_semana sem st"
  let ?grupos = "remdups (map (\<lambda>(p, palpite, jogo). (id_participante p, nome p)) ?linhas)"
  have inj: "inj_on id_participante (set (participantes st))"
    using assms by (simp add: participante_pk_def distinct_map)
  have "inj_on fst (set ?grupos)"
  proof (rule inj_onI)
    fix x y assume x: "x \<in> set ?grupos" and y: "y \<in> set ?grupos" and eq: "fst x = fst y"
    from x obtain p where p: "p \<in> set (participantes st)" "x = (id_participante p, nome p)"
      by (auto dest: linhas_participante)
    from y obtain q where q: "q \<in> set (participantes st)" "y = (id_participante q, nome q)"
      by (auto dest: linhas_participante)
    from eq p q have "id_participante p = id_participante q" by simp
    with inj p q have "p = q" by (auto dest: inj_onD)
    with p q show "x = y" by simp
  qed
  then have "distinct (map fst ?grupos)" by (simp add: distinct_map)
  moreover have "fst \<circ> (\<lambda>(pid, nm). (pid, nm, g pid nm)) = fst" for g :: "int \<Rightarrow> string \<Rightarrow> int"
    by (auto simp: fun_eq_iff)
  ultimately show ?thesis
    by (simp add: pontuacoes_raw_por_participante_def Let_def distinct_map_fst_sort_key)
qed

lemma agregado_sorted:
  "sorted (map (\<lambda>(pid, nm, tot). - tot) (pontuacoes_raw_por_participante sem st))"
  by (simp add: pontuacoes_raw_por_participante_def Let_def)

lemma sorted_dropWhile_nonpos:
  "sorted (map (\<lambda>(pid, nm, tot). - tot) agg) \<Longrightarrow>
   list_all (\<lambda>(pid, nm, tot). tot \<le> (0::int)) (dropWhile (\<lambda>(pid, nm, tot). tot \<noteq> 0) agg)"
proof (induction agg)
  case Nil
  then show ?case by simp
next
  case (Cons e agg)
  obtain pid nm tot where e: "e = (pid, nm, tot)" by (cases e)
  show ?case
  proof (cases "tot = 0")
    case True
    with Cons.prems have "\<forall>x\<in>set agg. (case x of (pid, nm, t) \<Rightarrow> t \<le> 0)"
      by (auto simp: e)
    then show ?thesis using True by (simp add: e list_all_iff)
  next
    case False
    with Cons show ?thesis by (simp add: e)
  qed
qed

lemma gravar_app_outras:
  "k \<noteq> (pid, sem) \<Longrightarrow>
   filter (\<lambda>r. chave r = k) (gravar_app pid sem pts t) = filter (\<lambda>r. chave r = k) t"
  by (induction t) (auto simp: chave_def)

lemma percorrer_app_outras:
  "p \<notin> fst ` set (takeWhile (\<lambda>(pid, nm, tot). tot \<noteq> 0) agg) \<Longrightarrow>
   filter (\<lambda>r. chave r = (p, sem)) (percorrer_app sem i pos ult agg t) =
   filter (\<lambda>r. chave r = (p, sem)) t"
proof (induction agg arbitrary: i pos ult t)
  case Nil
  then show ?case by simp
next
  case (Cons e agg)
  obtain pid nm tot where e: "e = (pid, nm, tot)" by (cases e)
  show ?case
  proof (cases "tot = 0")
    case True
    then show ?thesis by (simp add: e)
  next
    case False
    with Cons.prems have neq: "(p, sem) \<noteq> (pid, sem)"
      and rest: "p \<notin> fst ` set (takeWhile (\<lambda>(pid, nm, tot). tot \<noteq> 0) agg)"
      by (auto simp: e)
    show ?thesis
      using False Cons.IH[OF rest] gravar_app_outras[OF neq]
      by (simp add: e Let_def)
  qed
qed

lemma zero_fora:
  assumes "distinct (map fst agg)" and "(p, nm, 0) \<in> set agg"
  shows "p \<notin> fst ` set (takeWhile (\<lambda>(pid, nm, tot). tot \<noteq> (0::int)) agg)"
proof
  assume "p \<in> fst ` set (takeWhile (\<lambda>(pid, nm, tot). tot \<noteq> 0) agg)"
  then obtain nm' tot' where in_tw: "(p, nm', tot') \<in> set (takeWhile (\<lambda>(pid, nm, tot). tot \<noteq> 0) agg)"
    by force
  then have nz: "tot' \<noteq> 0" using set_takeWhileD by fastforce
  from in_tw have "(p, nm', tot') \<in> set agg" by (rule set_takeWhileD[THEN conjunct1])
  with assms have "(nm', tot') = (nm, 0)"
    by (meson eq_key_imp_eq_value)
  with nz show False by simp
qed

section \<open>Properties of the scoring and of the written rows\<close>

lemma weekday_exemplos:
  "weekday sexta_02h = 4 \<and> weekday sabado_18h = 5 \<and> weekday domingo_17h = 6 \<and> weekday segunda_00h = 0"
  by (simp add: weekday_def ymd2ord_def days_before_year_def days_before_month_def
      DAYS_BEFORE_MONTH_def is_leap_def sexta_02h_def sabado_18h_def domingo_17h_def segunda_00h_def)

lemma pontuacao_atual_acerto:
  "escolha palpite = res \<Longrightarrow>
   pontuacao_atual prime res f1 f2 palpite =
     (if prime
      then (if (placar_time1 palpite = f1 \<and> placar_time2 palpite = f2) \<or>
               \<bar>placar_time1 palpite - placar_time2 palpite\<bar> = \<bar>f1 - f2\<bar> then 5 else 4)
      else (if (placar_time1 palpite = f1 \<and> placar_time2 palpite = f2) \<or>
               \<bar>placar_time1 palpite - placar_time2 palpite\<bar> = \<bar>f1 - f2\<bar> then 2 else 1))"
  by (auto simp: pontuacao_atual_def Let_def)

lemma pontuacao_atual_erro:
  "escolha palpite \<noteq> res \<Longrightarrow> pontuacao_atual prime res f1 f2 palpite = 0"
  by (simp add: pontuacao_atual_def)

lemma pontuacao_atualizada:
  "pontuacao_recebida (atualizar_palpite palpite pontos) = pontos"
  by (simp add: atualizar_palpite_def)

lemma palpite_pontuado_copy8:
  assumes "resultado jogo = Some res" "placar_time1_final jogo = Some f1"
    "placar_time2_final jogo = Some f2"
    and "i < length (palpites st)" "jogo_id (palpites st ! i) = id_jogo jogo"
  shows "fst (calcular_e_atualizar_pontuacoes_jogo_copy8 jogo st) = True \<and>
    pontuacao_recebida (palpites (snd (calcular_e_atualizar_pontuacoes_jogo_copy8 jogo st)) ! i) =
      pontuacao_atual (is_prime_game jogo) res f1 f2 (palpites st ! i)"
  using assms
  by (simp add: calcular_e_atualizar_pontuacoes_jogo_copy8_def Let_def pontuacao_atualizada)

lemma palpite_pontuado_app:
  assumes "resultado jogo = Some res" "placar_time1_final jogo = Some f1"
    "placar_time2_final jogo = Some f2"
    and "i < length (palpites st)" "jogo_id (palpites st ! i) = id_jogo jogo"
  shows "fst (calcular_e_atualizar_pontuacoes_jogo_app jogo st) = True \<and>
    pontuacao_recebida (palpites (snd (calcular_e_atualizar_pontuacoes_jogo_app jogo st)) ! i) =
      pontuacao_atual (is_prime_game jogo) res f1 f2 (palpites st ! i)"
  using assms
  by (simp add: calcular_e_atualizar_pontuacoes_jogo_app_def Let_def pontuacao_atualizada)

lemma todos_com_resultado_iff:
  "todos_com_resultado js =
     (\<forall>jogo\<in>set js. resultado jogo \<noteq> None \<and> placar_time1_final jogo \<noteq> None \<and>
        placar_time2_final jogo \<noteq> None)"
  by (induction js) auto

lemma da_semana_novas:
  "da_semana sem (map (\<lambda>((pid, nm, tot), posicao).
        \<lparr>pr_participante_id = pid, pr_semana = sem, pontos_f1 = pontos_da_posicao posicao\<rparr>) zs) =
   map (\<lambda>((pid, nm, tot), posicao).
        \<lparr>pr_participante_id = pid, pr_semana = sem, pontos_f1 = pontos_da_posicao posicao\<rparr>) zs"
  by (induction zs) (auto simp: da_semana_def)


lemma copy8_linhas:
  "pontuacoes_rodada (calcular_pontos_f1_por_rodada_copy8 sem st) =
     de_outras_semanas sem (pontuacoes_rodada st) @
     map (\<lambda>((pid, nm, tot), posicao).
            \<lparr>pr_participante_id = pid, pr_semana = sem, pontos_f1 = pontos_da_posicao posicao\<rparr>)
       (zip (pontuacoes_raw_por_participante sem st)
            (posicoes 0 0 (- 1) (pontuacoes_raw_por_participante sem st)))"
  by (simp add: calcular_pontos_f1_por_rodada_copy8_def Let_def percorrer_copy8_zip
      de_outras_semanas_def)

lemma copy8_da_semana:
  "da_semana sem (pontuacoes_rodada (calcular_pontos_f1_por_rodada_copy8 sem st)) =
     map (\<lambda>((pid, nm, tot), posicao).
            \<lparr>pr_participante_id = pid, pr_semana = sem, pontos_f1 = pontos_da_posicao posicao\<rparr>)
       (zip (pontuacoes_raw_por_participante sem st)
            (posicoes 0 0 (- 1) (pontuacoes_raw_por_participante sem st)))"
proof -
  have "da_semana sem (de_outras_semanas sem t) = []" for t
    by (induction t) (auto simp: da_semana_def de_outras_semanas_def)
  moreover have "da_semana sem (xs @ ys) = da_semana sem xs @ da_semana sem ys" for xs ys
    by (simp add: da_semana_def)
  ultimately show ?thesis
    by (simp add: copy8_linhas da_semana_novas)
qed

lemma app_linhas:
  "pontuacoes_rodada (calcular_pontos_f1_por_rodada_app sem st) =
     percorrer_app sem 0 0 (- 1) (pontuacoes_raw_por_participante sem st) (pontuacoes_rodada st)"
  by (simp add: calcular_pontos_f1_por_rodada_app_def Let_def)

lemma pontos_da_posicao_fora: "10 \<le> posicao \<Longrightarrow> pontos_da_posicao posicao = 0"
  by (simp add: pontos_da_posicao_def pontos_f1_tabela_def)

lemma app_conjunto:
  assumes "participante_pk st" and "participante_semana_uc st"
  shows "set (pontuacoes_rodada (calcular_pontos_f1_por_rodada_app sem st)) =
     {r \<in> set (pontuacoes_rodada st).
        \<not> (pr_semana r = sem \<and>
           pr_participante_id r \<in>
             pr_participante_id ` set (da_semana sem (pontuacoes_rodada (calcular_pontos_f1_por_rodada_copy8 sem st))))}
     \<union> set (da_semana sem (pontuacoes_rodada (calcular_pontos_f1_por_rodada_copy8 sem st)))"
proof -
  let ?agg = "pontuacoes_raw_por_participante sem st"
  let ?mk = "\<lambda>((pid, nm, tot), posicao).
            \<lparr>pr_participante_id = pid, pr_semana = sem, pontos_f1 = pontos_da_posicao posicao\<rparr>"
  let ?zs = "zip ?agg (posicoes 0 0 (- 1) ?agg)"
  have "map pr_participante_id (map ?mk zs) = map fst (map fst zs)" for zs
    by (induction zs) auto
  then have "map pr_participante_id (map ?mk ?zs) = map fst (map fst ?zs)" .
  then have "map pr_participante_id (map ?mk ?zs) = map fst (takeWhile (\<lambda>(pid, nm, tot). tot \<noteq> 0) ?agg)"
    by (simp only: zip_posicoes_fst)
  then have "set (map pr_participante_id (map ?mk ?zs)) = set (map fst (takeWhile (\<lambda>(pid, nm, tot). tot \<noteq> 0) ?agg))"
    by (rule arg_cong)
  then have ids: "pr_participante_id ` set (map ?mk ?zs) = fst ` set (takeWhile (\<lambda>(pid, nm, tot). tot \<noteq> 0) ?agg)"
    by (simp only: set_map)
  show ?thesis
    unfolding app_linhas copy8_da_semana ids
    using percorrer_app_set[OF agregado_distinct[OF assms(1)], of "pontuacoes_rodada st" sem 0 0 "- 1"] assms(2)
    by (simp add: participante_semana_uc_def)
qed

lemma posicoes_nth:
  assumes "k < length (posicoes i pos ult agg)"
  shows "k < length agg \<and> snd (snd (agg ! k)) \<noteq> 0 \<and>
         zip agg (posicoes i pos ult agg) ! k = (agg ! k, posicoes i pos ult agg ! k)"
proof -
  let ?tw = "takeWhile (\<lambda>(pid, nm, tot). tot \<noteq> 0) agg"
  have k: "k < length ?tw" using assms by (simp add: length_posicoes)
  have le: "length ?tw \<le> length agg" by (rule length_takeWhile_le)
  have "?tw ! k = agg ! k" using k by (rule takeWhile_nth)
  moreover have "?tw ! k \<in> set ?tw" using k by (rule nth_mem)
  ultimately have "(\<lambda>(pid, nm, tot). tot \<noteq> 0) (agg ! k)"
    using set_takeWhileD by fastforce
  then have "snd (snd (agg ! k)) \<noteq> 0" by (simp add: case_prod_beta)
  then show ?thesis using k le assms by simp
qed

lemma novas_sem_participante:
  "p \<notin> fst ` set (map fst zs) \<Longrightarrow>
   filter (\<lambda>r. chave r = (p, sem))
     (map (\<lambda>((pid, nm, tot), posicao).
            \<lparr>pr_participante_id = pid, pr_semana = sem, pontos_f1 = pontos_da_posicao posicao\<rparr>) zs) = []"
  by (induction zs) (auto simp: chave_def)

text \<open>
  The game scorer of \<^verbatim>\<open>app.py\<close> on a game without a result: it returns
  \<open>False\<close> and leaves the session as it is.
\<close>

lemma jogo_sem_resultado_app:
  "resultado jogo = None \<or> placar_time1_final jogo = None \<or> placar_time2_final jogo = None \<Longrightarrow>
   calcular_e_atualizar_pontuacoes_jogo_app jogo st = (False, st)"
  by (simp add: calcular_e_atualizar_pontuacoes_jogo_app_def)

lemma prime_exemplos:
  "is_prime_game (jogo_finalizado 1 1 sexta_02h) \<and> is_prime_game (jogo_finalizado 2 1 segunda_00h)
   \<and> \<not> is_prime_game (jogo_finalizado 3 1 domingo_17h)"
  using weekday_exemplos
  by (simp add: is_prime_game_def Let_def jogo_finalizado_def sexta_02h_def segunda_00h_def
      domingo_17h_def)

lemma agregado_10_10_7:
  "pontuacoes_raw_por_participante 1 rodada_10_10_7 =
     [(1, ''ana'', 10), (2, ''bia'', 10), (3, ''caio'', 7)]"
  by code_simp

lemma restricoes_10_10_7: "participante_pk rodada_10_10_7 \<and> participante_semana_uc rodada_10_10_7"
  by code_simp

lemma agregado_onze:
  "pontuacoes_raw_por_participante 1 rodada_onze ! 10 = (11, ''ppppppppppp'', 4)
   \<and> length (posicoes 0 0 (- 1) (pontuacoes_raw_por_participante 1 rodada_onze)) = 11
   \<and> posicoes 0 0 (- 1) (pontuacoes_raw_por_participante 1 rodada_onze) ! 10 = 10"
  by code_simp

lemma restricoes_onze: "participante_pk rodada_onze \<and> participante_semana_uc rodada_onze"
  by code_simp

lemma agregado_recalculada:
  "pontuacoes_raw_por_participante 1 rodada_recalculada = [(1, ''ana'', 5), (2, ''bia'', 0)]"
  by code_simp

lemma restricoes_recalculada:
  "participante_pk rodada_recalculada \<and> participante_semana_uc rodada_recalculada"
  by code_simp

section \<open>The claims of the specification\<close>

subsection \<open>The tie example\<close>

text \<open>
  Claim C1, as the code has it. When the aggregate of a round is exactly three rows with
  the raw totals 10, 10 and 7, the loop assigns the positions 0, 0 and 2: the position of
  the third row is its index. The F1 points are therefore 25, 25 and 15. In
  \<^verbatim>\<open>app copy 8.py\<close> these are the rows of the round after the run; in
  \<^verbatim>\<open>app.py\<close>, under the constraints of the schema, they are the rows of the
  three participants for the round.
\<close>

theorem C1_empate_10_10_7:
  assumes "pontuacoes_raw_por_participante sem st = [(a, na, 10), (b, nb, 10), (c, nc, 7)]"
  shows "posicoes 0 0 (- 1) (pontuacoes_raw_por_participante sem st) = [0, 0, 2]
    \<and> da_semana sem (pontuacoes_rodada (calcular_pontos_f1_por_rodada_copy8 sem st)) =
        [\<lparr>pr_participante_id = a, pr_semana = sem, pontos_f1 = 25\<rparr>,
         \<lparr>pr_participante_id = b, pr_semana = sem, pontos_f1 = 25\<rparr>,
         \<lparr>pr_participante_id = c, pr_semana = sem, pontos_f1 = 15\<rparr>]
    \<and> (participante_pk st \<and> participante_semana_uc st \<longrightarrow>
        {r \<in> set (pontuacoes_rodada (calcular_pontos_f1_por_rodada_app sem st)).
           pr_semana r = sem \<and> pr_participante_id r \<in> {a, b, c}} =
        {\<lparr>pr_participante_id = a, pr_semana = sem, pontos_f1 = 25\<rparr>,
         \<lparr>pr_participante_id = b, pr_semana = sem, pontos_f1 = 25\<rparr>,
         \<lparr>pr_participante_id = c, pr_semana = sem, pontos_f1 = 15\<rparr>})"
proof -
  have ps: "posicoes 0 0 (- 1) [(a, na, 10), (b, nb, 10), (c, nc, 7)] = [0, 0, 2]"
    by (simp add: nova_posicao_def Let_def)
  have pts: "pontos_da_posicao 0 = 25" "pontos_da_posicao 2 = 15"
    by (simp_all add: pontos_da_posicao_def pontos_f1_tabela_def)
  have k8: "da_semana sem (pontuacoes_rodada (calcular_pontos_f1_por_rodada_copy8 sem st)) =
        [\<lparr>pr_participante_id = a, pr_semana = sem, pontos_f1 = 25\<rparr>,
         \<lparr>pr_participante_id = b, pr_semana = sem, pontos_f1 = 25\<rparr>,
         \<lparr>pr_participante_id = c, pr_semana = sem, pontos_f1 = 15\<rparr>]"
    unfolding copy8_da_semana assms ps by (simp add: pts)
  have "{r \<in> set (pontuacoes_rodada (calcular_pontos_f1_por_rodada_app sem st)).
           pr_semana r = sem \<and> pr_participante_id r \<in> {a, b, c}} =
        {\<lparr>pr_participante_id = a, pr_semana = sem, pontos_f1 = 25\<rparr>,
         \<lparr>pr_participante_id = b, pr_semana = sem, pontos_f1 = 25\<rparr>,
         \<lparr>pr_participante_id = c, pr_semana = sem, pontos_f1 = 15\<rparr>}"
    if "participante_pk st" "participante_semana_uc st"
    unfolding app_conjunto[OF that, of sem] k8 by auto
  then show ?thesis using ps k8 assms by simp
qed

theorem C1_witness:
  "pontuacoes_raw_por_participante 1 rodada_10_10_7 =
     [(1, ''ana'', 10), (2, ''bia'', 10), (3, ''caio'', 7)]
   \<and> posicoes 0 0 (- 1) (pontuacoes_raw_por_participante 1 rodada_10_10_7) = [0, 0, 2]
   \<and> da_semana 1 (pontuacoes_rodada (calcular_pontos_f1_por_rodada_copy8 1 rodada_10_10_7)) =
        [\<lparr>pr_participante_id = 1, pr_semana = 1, pontos_f1 = 25\<rparr>,
         \<lparr>pr_participante_id = 2, pr_semana = 1, pontos_f1 = 25\<rparr>,
         \<lparr>pr_participante_id = 3, pr_semana = 1, pontos_f1 = 15\<rparr>]
   \<and> {r \<in> set (pontuacoes_rodada (calcular_pontos_f1_por_rodada_app 1 rodada_10_10_7)).
           pr_semana r = 1 \<and> pr_participante_id r \<in> {1, 2, 3}} =
        {\<lparr>pr_participante_id = 1, pr_semana = 1, pontos_f1 = 25\<rparr>,
         \<lparr>pr_participante_id = 2, pr_semana = 1, pontos_f1 = 25\<rparr>,
         \<lparr>pr_participante_id = 3, pr_semana = 1, pontos_f1 = 15\<rparr>}"
  using C1_empate_10_10_7 [OF agregado_10_10_7] restricoes_10_10_7 agregado_10_10_7
  by simp

text \<open>
  The claim as stated (positions 0, 0, 1 and points 25, 25, 18) fails on the example round:
  both files award 25, 25 and 15.
\<close>

theorem C1_counterexample:
  "map (\<lambda>(pid, nm, tot). tot) (pontuacoes_raw_por_participante 1 rodada_10_10_7) = [10, 10, 7]
   \<and> posicoes 0 0 (- 1) (pontuacoes_raw_por_participante 1 rodada_10_10_7) \<noteq> [0, 0, 1]
   \<and> map pontos_f1 (pontuacoes_rodada (calcular_pontos_f1_por_rodada_copy8 1 rodada_10_10_7))
       = [25, 25, 15]
   \<and> map pontos_f1 (pontuacoes_rodada (calcular_pontos_f1_por_rodada_copy8 1 rodada_10_10_7))
       \<noteq> [25, 25, 18]
   \<and> map pontos_f1 (pontuacoes_rodada (calcular_pontos_f1_por_rodada_app 1 rodada_10_10_7))
       = [25, 25, 15]
   \<and> map pontos_f1 (pontuacoes_rodada (calcular_pontos_f1_por_rodada_app 1 rodada_10_10_7))
       \<noteq> [25, 25, 18]"
proof -
  have "posicoes 0 0 (- 1) (pontuacoes_raw_por_participante 1 rodada_10_10_7) = [0, 0, 2]"
    by code_simp
  moreover have "map pontos_f1 (pontuacoes_rodada (calcular_pontos_f1_por_rodada_copy8 1 rodada_10_10_7))
       = [25, 25, 15]"
    by code_simp
  moreover have "map pontos_f1 (pontuacoes_rodada (calcular_pontos_f1_por_rodada_app 1 rodada_10_10_7))
       = [25, 25, 15]"
    by code_simp
  ultimately show ?thesis by (simp add: agregado_10_10_7)
qed

subsection \<open>Positions outside the table\<close>

text \<open>
  Claim C2, as the code has it. A participant reached by the loop (so with a nonzero raw
  total) whose position is 10 or more gets 0 points, and a \<open>PontuacaoRodada\<close> row
  with \<open>pontos_f1 = 0\<close> is written for that participant: in \<^verbatim>\<open>app copy 8.py\<close>
  it is the row at the participant's index among the rows of the round, in
  \<^verbatim>\<open>app.py\<close>, under the constraints of the schema, it is a row of the table.
\<close>

theorem C2_fora_do_top10:
  assumes "k < length (posicoes 0 0 (- 1) (pontuacoes_raw_por_participante sem st))"
    and "10 \<le> posicoes 0 0 (- 1) (pontuacoes_raw_por_participante sem st) ! k"
  shows "snd (snd (pontuacoes_raw_por_participante sem st ! k)) \<noteq> 0
    \<and> da_semana sem (pontuacoes_rodada (calcular_pontos_f1_por_rodada_copy8 sem st)) ! k =
        \<lparr>pr_participante_id = fst (pontuacoes_raw_por_participante sem st ! k), pr_semana = sem,
          pontos_f1 = 0\<rparr>
    \<and> (participante_pk st \<and> participante_semana_uc st \<longrightarrow>
        \<lparr>pr_participante_id = fst (pontuacoes_raw_por_participante sem st ! k), pr_semana = sem,
          pontos_f1 = 0\<rparr>
        \<in> set (pontuacoes_rodada (calcular_pontos_f1_por_rodada_app sem st)))"
proof -
  let ?agg = "pontuacoes_raw_por_participante sem st"
  let ?ps = "posicoes 0 0 (- 1) ?agg"
  let ?mk = "\<lambda>((pid, nm, tot), posicao).
            \<lparr>pr_participante_id = pid, pr_semana = sem, pontos_f1 = pontos_da_posicao posicao\<rparr>"
  let ?linha = "\<lparr>pr_participante_id = fst (?agg ! k), pr_semana = sem, pontos_f1 = 0\<rparr>"
  note n = posicoes_nth[OF assms(1)]
  have len: "k < length (zip ?agg ?ps)" using n assms(1) by simp
  have "map ?mk (zip ?agg ?ps) ! k = ?mk (?agg ! k, ?ps ! k)"
    using len n by simp
  also have "\<dots> = ?linha"
    using pontos_da_posicao_fora[OF assms(2)] by (simp add: case_prod_beta)
  finally have k8: "da_semana sem (pontuacoes_rodada (calcular_pontos_f1_por_rodada_copy8 sem st)) ! k = ?linha"
    by (simp only: copy8_da_semana)
  have "k < length (da_semana sem (pontuacoes_rodada (calcular_pontos_f1_por_rodada_copy8 sem st)))"
    using len by (simp only: copy8_da_semana length_map)
  then have mem: "?linha \<in> set (da_semana sem (pontuacoes_rodada (calcular_pontos_f1_por_rodada_copy8 sem st)))"
    using k8 nth_mem by metis
  have "?linha \<in> set (pontuacoes_rodada (calcular_pontos_f1_por_rodada_app sem st))"
    if "participante_pk st" "participante_semana_uc st"
    using mem unfolding app_conjunto[OF that, of sem] by blast
  then show ?thesis using n k8 by blast
qed

theorem C2_witness:
  "10 < length (posicoes 0 0 (- 1) (pontuacoes_raw_por_participante 1 rodada_onze))
   \<and> 10 \<le> posicoes 0 0 (- 1) (pontuacoes_raw_por_participante 1 rodada_onze) ! 10
   \<and> da_semana 1 (pontuacoes_rodada (calcular_pontos_f1_por_rodada_copy8 1 rodada_onze)) ! 10 =
        \<lparr>pr_participante_id = 11, pr_semana = 1, pontos_f1 = 0\<rparr>
   \<and> \<lparr>pr_participante_id = 11, pr_semana = 1, pontos_f1 = 0\<rparr>
        \<in> set (pontuacoes_rodada (calcular_pontos_f1_por_rodada_app 1 rodada_onze))"
proof -
  have a: "10 < length (posicoes 0 0 (- 1) (pontuacoes_raw_por_participante 1 rodada_onze))"
    using agregado_onze by simp
  have b: "10 \<le> posicoes 0 0 (- 1) (pontuacoes_raw_por_participante 1 rodada_onze) ! 10"
    using agregado_onze by simp
  show ?thesis
    using C2_fora_do_top10 [OF a b] a b restricoes_onze agregado_onze by simp
qed

text \<open>
  The claim as stated (no row is written) fails for the eleventh participant of the
  example round with ten tied leaders: position 10, and a row with 0 points in both files.
\<close>

theorem C2_counterexample:
  "pontuacoes_raw_por_participante 1 rodada_onze ! 10 = (11, ''ppppppppppp'', 4)
   \<and> posicoes 0 0 (- 1) (pontuacoes_raw_por_participante 1 rodada_onze) ! 10 = 10
   \<and> filter (\<lambda>r. pr_participante_id r = 11)
        (pontuacoes_rodada (calcular_pontos_f1_por_rodada_copy8 1 rodada_onze)) =
      [\<lparr>pr_participante_id = 11, pr_semana = 1, pontos_f1 = 0\<rparr>]
   \<and> filter (\<lambda>r. pr_participante_id r = 11)
        (pontuacoes_rodada (calcular_pontos_f1_por_rodada_app 1 rodada_onze)) =
      [\<lparr>pr_participante_id = 11, pr_semana = 1, pontos_f1 = 0\<rparr>]"
proof -
  have "filter (\<lambda>r. pr_participante_id r = 11)
        (pontuacoes_rodada (calcular_pontos_f1_por_rodada_copy8 1 rodada_onze)) =
      [\<lparr>pr_participante_id = 11, pr_semana = 1, pontos_f1 = 0\<rparr>]"
    by code_simp
  moreover have "filter (\<lambda>r. pr_participante_id r = 11)
        (pontuacoes_rodada (calcular_pontos_f1_por_rodada_app 1 rodada_onze)) =
      [\<lparr>pr_participante_id = 11, pr_semana = 1, pontos_f1 = 0\<rparr>]"
    by code_simp
  ultimately show ?thesis using agregado_onze by simp
qed

subsection \<open>A matched outcome\<close>

text \<open>
  Claim C3. For a game with a result and a prediction of that game whose \<open>escolha\<close>
  equals the game's \<open>resultado\<close>, the raw points stored by both versions of the game
  scorer are: for a game that is not prime, 2 when the predicted scores equal the final
  scores or the absolute differences are equal, and 1 otherwise; for a prime game, 5 in
  those two cases and 4 otherwise. The value is never 6.
\<close>

theorem C3_acerto_do_resultado:
  assumes "resultado jogo = Some res" and "placar_time1_final jogo = Some f1"
    and "placar_time2_final jogo = Some f2"
    and "i < length (palpites st)" and "jogo_id (palpites st ! i) = id_jogo jogo"
    and "escolha (palpites st ! i) = res"
  shows "let palpite = palpites st ! i;
             placar_ou_diferenca =
               ((placar_time1 palpite = f1 \<and> placar_time2 palpite = f2) \<or>
                \<bar>placar_time1 palpite - placar_time2 palpite\<bar> = \<bar>f1 - f2\<bar>);
             pontos =
               (if is_prime_game jogo then (if placar_ou_diferenca then 5 else 4)
                else (if placar_ou_diferenca then 2 else 1))
         in pontuacao_recebida
              (palpites (snd (calcular_e_atualizar_pontuacoes_jogo_copy8 jogo st)) ! i) = pontos
          \<and> pontuacao_recebida
              (palpites (snd (calcular_e_atualizar_pontuacoes_jogo_app jogo st)) ! i) = pontos
          \<and> pontos \<noteq> 6"
  using palpite_pontuado_copy8[OF assms(1-5)] palpite_pontuado_app[OF assms(1-5)]
    pontuacao_atual_acerto[OF assms(6)]
  by (simp add: Let_def)

theorem C3_witness:
  "pontuacao_recebida
     (palpites (snd (calcular_e_atualizar_pontuacoes_jogo_copy8 (jogo_finalizado 1 1 sexta_02h)
        rodada_10_10_7)) ! 3) = 5
   \<and> pontuacao_recebida
     (palpites (snd (calcular_e_atualizar_pontuacoes_jogo_app (jogo_finalizado 1 1 sexta_02h)
        rodada_10_10_7)) ! 3) = 5
   \<and> pontuacao_recebida
     (palpites (snd (calcular_e_atualizar_pontuacoes_jogo_copy8 (jogo_finalizado 3 1 domingo_17h)
        rodada_10_10_7)) ! 8) = 2
   \<and> pontuacao_recebida
     (palpites (snd (calcular_e_atualizar_pontuacoes_jogo_app (jogo_finalizado 3 1 domingo_17h)
        rodada_10_10_7)) ! 8) = 2"
proof -
  have a: "resultado (jogo_finalizado k 1 dt) = Some ''time1_vence''"
    "placar_time1_final (jogo_finalizado k 1 dt) = Some 24"
    "placar_time2_final (jogo_finalizado k 1 dt) = Some 17" for k dt
    by (simp_all add: jogo_finalizado_def)
  have b: "3 < length (palpites rodada_10_10_7)"
    "jogo_id (palpites rodada_10_10_7 ! 3) = id_jogo (jogo_finalizado 1 1 sexta_02h)"
    "escolha (palpites rodada_10_10_7 ! 3) = ''time1_vence''"
    by (simp_all add: rodada_10_10_7_def palpite_de_def jogo_finalizado_def)
  have c: "8 < length (palpites rodada_10_10_7)"
    "jogo_id (palpites rodada_10_10_7 ! 8) = id_jogo (jogo_finalizado 3 1 domingo_17h)"
    "escolha (palpites rodada_10_10_7 ! 8) = ''time1_vence''"
    by (simp_all add: rodada_10_10_7_def palpite_de_def jogo_finalizado_def)
  have d: "placar_time1 (palpites rodada_10_10_7 ! 3) = 30"
    "placar_time2 (palpites rodada_10_10_7 ! 3) = 23"
    "placar_time1 (palpites rodada_10_10_7 ! 8) = 24"
    "placar_time2 (palpites rodada_10_10_7 ! 8) = 17"
    by (simp_all add: rodada_10_10_7_def palpite_de_def)
  show ?thesis
    using C3_acerto_do_resultado [OF a b] C3_acerto_do_resultado [OF a c] prime_exemplos d
    by (simp add: Let_def)
qed

subsection \<open>A missed outcome\<close>

text \<open>
  Claim C4. For a game with a result and a prediction of that game whose \<open>escolha\<close>
  differs from the game's \<open>resultado\<close>, both versions of the game scorer store 0 raw
  points, whatever the predicted scores are.
\<close>

theorem C4_erro_do_resultado:
  assumes "resultado jogo = Some res" and "placar_time1_final jogo = Some f1"
    and "placar_time2_final jogo = Some f2"
    and "i < length (palpites st)" and "jogo_id (palpites st ! i) = id_jogo jogo"
    and "escolha (palpites st ! i) \<noteq> res"
  shows "pontuacao_recebida (palpites (snd (calcular_e_atualizar_pontuacoes_jogo_copy8 jogo st)) ! i) = 0
    \<and> pontuacao_recebida (palpites (snd (calcular_e_atualizar_pontuacoes_jogo_app jogo st)) ! i) = 0"
  using palpite_pontuado_copy8[OF assms(1-5)] palpite_pontuado_app[OF assms(1-5)]
    pontuacao_atual_erro[OF assms(6)] by simp

theorem C4_witness:
  "pontuacao_recebida
     (palpites (snd (calcular_e_atualizar_pontuacoes_jogo_copy8 (jogo_finalizado 2 1 segunda_00h)
        rodada_10_10_7)) ! 7) = 0
   \<and> pontuacao_recebida
     (palpites (snd (calcular_e_atualizar_pontuacoes_jogo_app (jogo_finalizado 2 1 segunda_00h)
        rodada_10_10_7)) ! 7) = 0"
proof -
  have a: "resultado (jogo_finalizado 2 1 segunda_00h) = Some ''time1_vence''"
    "placar_time1_final (jogo_finalizado 2 1 segunda_00h) = Some 24"
    "placar_time2_final (jogo_finalizado 2 1 segunda_00h) = Some 17"
    by (simp_all add: jogo_finalizado_def)
  have b: "7 < length (palpites rodada_10_10_7)"
    "jogo_id (palpites rodada_10_10_7 ! 7) = id_jogo (jogo_finalizado 2 1 segunda_00h)"
    "escolha (palpites rodada_10_10_7 ! 7) \<noteq> ''time1_vence''"
    by (simp_all add: rodada_10_10_7_def palpite_de_def jogo_finalizado_def)
  show ?thesis using C4_erro_do_resultado [OF a b] .
qed

subsection \<open>A game without a result\<close>

text \<open>
  Claim C5, as the code has it. When \<open>resultado\<close> or one of the two final scores of
  the game is unset, both versions of the game scorer return \<open>False\<close> and compute no
  score. The scorer of \<^verbatim>\<open>app copy 8.py\<close> sets the raw points of every
  prediction of that game to 0 and changes nothing else; the scorer of
  \<^verbatim>\<open>app.py\<close> leaves the session as it is, so the raw points stay as stored.
\<close>

theorem C5_jogo_sem_resultado:
  assumes "resultado jogo = None \<or> placar_time1_final jogo = None \<or> placar_time2_final jogo = None"
  shows "calcular_e_atualizar_pontuacoes_jogo_copy8 jogo st =
     (False,
      st\<lparr>palpites :=
           map (\<lambda>palpite. if jogo_id palpite = id_jogo jogo
                           then palpite\<lparr>pontuacao_recebida := 0\<rparr> else palpite)
             (palpites st)\<rparr>)
    \<and> calcular_e_atualizar_pontuacoes_jogo_app jogo st = (False, st)"
proof -
  have "(if pontuacao_recebida p \<noteq> 0 then p\<lparr>pontuacao_recebida := 0\<rparr> else p) =
        p\<lparr>pontuacao_recebida := 0\<rparr>" for p :: Palpite
    by simp
  then have "calcular_e_atualizar_pontuacoes_jogo_copy8 jogo st =
     (False,
      st\<lparr>palpites :=
           map (\<lambda>palpite. if jogo_id palpite = id_jogo jogo
                           then palpite\<lparr>pontuacao_recebida := 0\<rparr> else palpite)
             (palpites st)\<rparr>)"
    using assms by (simp add: calcular_e_atualizar_pontuacoes_jogo_copy8_def cong: if_cong)
  then show ?thesis
    using jogo_sem_resultado_app[OF assms] by simp
qed

theorem C5_witness:
  "calcular_e_atualizar_pontuacoes_jogo_copy8 (jogo_sem_resultado 2 1 domingo_17h) rodada_incompleta =
     (False,
      rodada_incompleta\<lparr>palpites :=
        [palpite_de 1 2 ''time1_vence'' 24 17 0, palpite_de 2 2 ''time2_vence'' 17 24 0,
         palpite_de 1 1 ''time1_vence'' 24 17 5]\<rparr>)
   \<and> calcular_e_atualizar_pontuacoes_jogo_app (jogo_sem_resultado 2 1 domingo_17h) rodada_incompleta =
     (False, rodada_incompleta)"
proof -
  have a: "resultado (jogo_sem_resultado 2 1 domingo_17h) = None \<or>
      placar_time1_final (jogo_sem_resultado 2 1 domingo_17h) = None \<or>
      placar_time2_final (jogo_sem_resultado 2 1 domingo_17h) = None"
    by (simp add: jogo_sem_resultado_def)
  show ?thesis
    using C5_jogo_sem_resultado [OF a, of rodada_incompleta]
    by (simp add: rodada_incompleta_def palpite_de_def jogo_sem_resultado_def)
qed

text \<open>
  The claim as stated (every nonzero raw-points value of the game is reset) fails for the
  scorer of \<^verbatim>\<open>app.py\<close>: on the example round whose second game lost its result,
  ana's prediction of that game holds 2 raw points before the call and still holds them
  after it.
\<close>

theorem C5_counterexample:
  "resultado (jogo_sem_resultado 2 1 domingo_17h) = None
   \<and> jogo_id (palpites rodada_incompleta ! 0) = id_jogo (jogo_sem_resultado 2 1 domingo_17h)
   \<and> pontuacao_recebida (palpites rodada_incompleta ! 0) = 2
   \<and> fst (calcular_e_atualizar_pontuacoes_jogo_app (jogo_sem_resultado 2 1 domingo_17h)
        rodada_incompleta) = False
   \<and> map pontuacao_recebida
        (palpites (snd (calcular_e_atualizar_pontuacoes_jogo_app (jogo_sem_resultado 2 1 domingo_17h)
           rodada_incompleta))) = [2, 0, 5]
   \<and> pontuacao_recebida
        (palpites (snd (calcular_e_atualizar_pontuacoes_jogo_app (jogo_sem_resultado 2 1 domingo_17h)
           rodada_incompleta)) ! 0) \<noteq> 0"
  by (simp add: calcular_e_atualizar_pontuacoes_jogo_app_def jogo_sem_resultado_def
      rodada_incompleta_def palpite_de_def)

subsection \<open>Prime games\<close>

text \<open>
  Claim C6. \<open>is_prime_game\<close> holds exactly when the UTC hour is between 0 and 4
  inclusive and the UTC weekday is Friday (4), Monday (0) or Tuesday (1). A game on
  Friday 2024-09-06 at 02:00 is prime, a game on Saturday 2024-09-07 at 18:00 is not.
\<close>

theorem C6_is_prime_game:
  "is_prime_game jogo =
     ((0 \<le> hour (data_hora jogo) \<and> hour (data_hora jogo) \<le> 4) \<and>
      (weekday (data_hora jogo) = 4 \<or> weekday (data_hora jogo) = 0 \<or> weekday (data_hora jogo) = 1))
   \<and> weekday sexta_02h = 4 \<and> hour sexta_02h = 2
   \<and> is_prime_game (jogo\<lparr>data_hora := sexta_02h\<rparr>)
   \<and> weekday sabado_18h = 5 \<and> hour sabado_18h = 18
   \<and> \<not> is_prime_game (jogo\<lparr>data_hora := sabado_18h\<rparr>)"
  using weekday_exemplos
  by (simp add: is_prime_game_def Let_def sexta_02h_def sabado_18h_def)

theorem C6_witness:
  "is_prime_game (jogo_finalizado 1 1 sexta_02h) \<and> \<not> is_prime_game (jogo_finalizado 1 1 sabado_18h)
   \<and> is_prime_game (jogo_finalizado 2 1 segunda_00h) \<and> \<not> is_prime_game (jogo_finalizado 3 1 domingo_17h)"
  using C6_is_prime_game [of "jogo_finalizado 1 1 sexta_02h"]
        C6_is_prime_game [of "jogo_finalizado 2 1 segunda_00h"]
        C6_is_prime_game [of "jogo_finalizado 3 1 domingo_17h"]
        weekday_exemplos
  by (simp add: jogo_finalizado_def segunda_00h_def domingo_17h_def)

subsection \<open>No stale rows\<close>



subsection \<open>Raw totals of zero\<close>

text \<open>
  Claim C8. With \<open>Participante.id\<close> a primary key, a participant whose raw total for
  the round is 0 gets no row from the ranking: after \<^verbatim>\<open>app copy 8.py\<close> there is
  no row for the participant and round, and \<^verbatim>\<open>app.py\<close> leaves the rows for
  the participant and round as they were. The loop ends at the first total of 0 (it
  gives the same table on the aggregate cut there), and since the aggregate is sorted
  descending every row from that one on has a total of 0 or less.
\<close>

theorem C8_total_zero:
  assumes "participante_pk st" and "(p, nm, 0) \<in> set (pontuacoes_raw_por_participante sem st)"
  shows "filter (\<lambda>r. chave r = (p, sem))
           (pontuacoes_rodada (calcular_pontos_f1_por_rodada_copy8 sem st)) = []
    \<and> filter (\<lambda>r. chave r = (p, sem))
           (pontuacoes_rodada (calcular_pontos_f1_por_rodada_app sem st)) =
       filter (\<lambda>r. chave r = (p, sem)) (pontuacoes_rodada st)
    \<and> percorrer_copy8 sem 0 0 (- 1) (pontuacoes_raw_por_participante sem st) tabela =
       percorrer_copy8 sem 0 0 (- 1)
         (takeWhile (\<lambda>(pid, nm, tot). tot \<noteq> 0) (pontuacoes_raw_por_participante sem st)) tabela
    \<and> percorrer_app sem 0 0 (- 1) (pontuacoes_raw_por_participante sem st) tabela =
       percorrer_app sem 0 0 (- 1)
         (takeWhile (\<lambda>(pid, nm, tot). tot \<noteq> 0) (pontuacoes_raw_por_participante sem st)) tabela
    \<and> list_all (\<lambda>(pid, nm, tot). tot \<le> 0)
         (dropWhile (\<lambda>(pid, nm, tot). tot \<noteq> 0) (pontuacoes_raw_por_participante sem st))"
proof -
  let ?agg = "pontuacoes_raw_por_participante sem st"
  have fora: "p \<notin> fst ` set (takeWhile (\<lambda>(pid, nm, tot). tot \<noteq> 0) ?agg)"
    using agregado_distinct[OF assms(1)] assms(2) by (rule zero_fora)
  have "filter (\<lambda>r. chave r = (p, sem)) (de_outras_semanas sem t) = []" for t
    by (induction t) (auto simp: de_outras_semanas_def chave_def)
  moreover have "filter (\<lambda>r. chave r = (p, sem))
     (map (\<lambda>((pid, nm, tot), posicao).
            \<lparr>pr_participante_id = pid, pr_semana = sem, pontos_f1 = pontos_da_posicao posicao\<rparr>)
        (zip ?agg (posicoes 0 0 (- 1) ?agg))) = []"
    using fora by (intro novas_sem_participante) (simp add: zip_posicoes_fst)
  ultimately have a: "filter (\<lambda>r. chave r = (p, sem))
           (pontuacoes_rodada (calcular_pontos_f1_por_rodada_copy8 sem st)) = []"
    by (simp add: copy8_linhas)
  have b: "filter (\<lambda>r. chave r = (p, sem))
           (pontuacoes_rodada (calcular_pontos_f1_por_rodada_app sem st)) =
       filter (\<lambda>r. chave r = (p, sem)) (pontuacoes_rodada st)"
    unfolding app_linhas using fora by (rule percorrer_app_outras)
  show ?thesis
    using a b sorted_dropWhile_nonpos[OF agregado_sorted, of sem st]
    by (simp add: percorrer_copy8_takeWhile percorrer_app_takeWhile)
qed

theorem C8_witness:
  "(2, ''bia'', 0) \<in> set (pontuacoes_raw_por_participante 1 rodada_recalculada)
   \<and> filter (\<lambda>r. chave r = (2, 1))
        (pontuacoes_rodada (calcular_pontos_f1_por_rodada_copy8 1 rodada_recalculada)) = []
   \<and> filter (\<lambda>r. chave r = (2, 1))
        (pontuacoes_rodada (calcular_pontos_f1_por_rodada_app 1 rodada_recalculada)) =
      [\<lparr>pr_participante_id = 2, pr_semana = 1, pontos_f1 = 18\<rparr>]"
proof -
  have a: "participante_pk rodada_recalculada" using restricoes_recalculada by simp
  have b: "(2, ''bia'', 0) \<in> set (pontuacoes_raw_por_participante 1 rodada_recalculada)"
    by (simp add: agregado_recalculada)
  have c: "filter (\<lambda>r. chave r = (2, 1)) (pontuacoes_rodada rodada_recalculada) =
      [\<lparr>pr_participante_id = 2, pr_semana = 1, pontos_f1 = 18\<rparr>]"
    by (simp add: rodada_recalculada_def chave_def)
  show ?thesis using C8_total_zero [OF a b] b c by simp
qed

subsection \<open>Round completeness\<close>

text \<open>
  Claim C9. \<open>todos_jogos_semana_finalizados\<close> holds exactly when the round has at
  least one game and every game of the round has \<open>resultado\<close> and both final scores
  set; so a round without games is never complete.
\<close>

theorem C9_rodada_completa:
  "todos_jogos_semana_finalizados sem st =
     ((\<exists>jogo\<in>set (jogos st). semana jogo = sem) \<and>
      (\<forall>jogo\<in>set (jogos st). semana jogo = sem \<longrightarrow>
         resultado jogo \<noteq> None \<and> placar_time1_final jogo \<noteq> None \<and>
         placar_time2_final jogo \<noteq> None))"
  by (auto simp: todos_jogos_semana_finalizados_def Let_def todos_com_resultado_iff filter_empty_conv)

theorem C9_witness:
  "\<not> todos_jogos_semana_finalizados 1 rodada_incompleta
   \<and> todos_jogos_semana_finalizados 1 rodada_10_10_7
   \<and> \<not> todos_jogos_semana_finalizados 2 rodada_10_10_7"
  using C9_rodada_completa [of 1 rodada_incompleta] C9_rodada_completa [of 1 rodada_10_10_7]
    C9_rodada_completa [of 2 rodada_10_10_7]
  by (simp add: rodada_incompleta_def rodada_10_10_7_def jogo_finalizado_def jogo_sem_resultado_def)

subsection \<open>Upsert against delete-then-reinsert\<close>

text \<open>
  Claim C10, as the code has it. Under the constraints of the schema, the rows of the
  round after the upsert ranking of \<^verbatim>\<open>app.py\<close> are the rows of the round after
  the delete-then-reinsert ranking of \<^verbatim>\<open>app copy 8.py\<close>, together with every
  earlier row of the round whose participant gets no row in this run.
\<close>

theorem C10_upsert_e_reinsercao:
  assumes "participante_pk st" and "participante_semana_uc st"
  shows "set (da_semana sem (pontuacoes_rodada (calcular_pontos_f1_por_rodada_app sem st))) =
     set (da_semana sem (pontuacoes_rodada (calcular_pontos_f1_por_rodada_copy8 sem st))) \<union>
     {r \<in> set (da_semana sem (pontuacoes_rodada st)).
        pr_participante_id r \<notin>
          pr_participante_id ` set (da_semana sem (pontuacoes_rodada (calcular_pontos_f1_por_rodada_copy8 sem st)))}"
proof -
  have "set (da_semana sem t) = {r \<in> set t. pr_semana r = sem}" for t
    by (auto simp: da_semana_def)
  then show ?thesis
    using app_conjunto[OF assms, of sem] by auto
qed

theorem C10_witness:
  "participante_pk rodada_recalculada \<and> participante_semana_uc rodada_recalculada
   \<and> set (da_semana 1 (pontuacoes_rodada (calcular_pontos_f1_por_rodada_app 1 rodada_recalculada))) =
      {\<lparr>pr_participante_id = 1, pr_semana = 1, pontos_f1 = 25\<rparr>,
       \<lparr>pr_participante_id = 2, pr_semana = 1, pontos_f1 = 18\<rparr>}"
proof -
  have a: "participante_pk rodada_recalculada" and b: "participante_semana_uc rodada_recalculada"
    using restricoes_recalculada by simp_all
  have c: "da_semana 1 (pontuacoes_rodada (calcular_pontos_f1_por_rodada_copy8 1 rodada_recalculada)) =
      [\<lparr>pr_participante_id = 1, pr_semana = 1, pontos_f1 = 25\<rparr>]"
    by code_simp
  have d: "da_semana 1 (pontuacoes_rodada rodada_recalculada) =
      [\<lparr>pr_participante_id = 1, pr_semana = 1, pontos_f1 = 25\<rparr>,
       \<lparr>pr_participante_id = 2, pr_semana = 1, pontos_f1 = 18\<rparr>]"
    by code_simp
  have e: "{r \<in> set [\<lparr>pr_participante_id = 1, pr_semana = 1, pontos_f1 = 25\<rparr>,
       \<lparr>pr_participante_id = 2, pr_semana = 1, pontos_f1 = 18\<rparr>].
        pr_participante_id r \<notin>
          pr_participante_id ` set [\<lparr>pr_participante_id = 1, pr_semana = (1::int), pontos_f1 = (25::int)\<rparr>]} =
      {\<lparr>pr_participante_id = 2, pr_semana = 1, pontos_f1 = 18\<rparr>}"
    unfolding set_filter[symmetric] by simp
  have "set (da_semana 1 (pontuacoes_rodada (calcular_pontos_f1_por_rodada_app 1 rodada_recalculada))) =
      {\<lparr>pr_participante_id = 1, pr_semana = 1, pontos_f1 = 25\<rparr>,
       \<lparr>pr_participante_id = 2, pr_semana = 1, pontos_f1 = 18\<rparr>}"
    using C10_upsert_e_reinsercao [OF a b, of 1] unfolding c d e by (simp add: insert_commute)
  then show ?thesis using a b by simp
qed

text \<open>
  The claim as stated (both versions leave the same rows) fails on the example round
  that was ranked before a result was corrected: \<^verbatim>\<open>app.py\<close> keeps bia's earlier
  row with 18 points, \<^verbatim>\<open>app copy 8.py\<close> removes it.
\<close>

theorem C10_counterexample:
  "participante_pk rodada_recalculada \<and> participante_semana_uc rodada_recalculada
   \<and> da_semana 1 (pontuacoes_rodada (calcular_pontos_f1_por_rodada_app 1 rodada_recalculada)) =
      [\<lparr>pr_participante_id = 1, pr_semana = 1, pontos_f1 = 25\<rparr>,
       \<lparr>pr_participante_id = 2, pr_semana = 1, pontos_f1 = 18\<rparr>]
   \<and> da_semana 1 (pontuacoes_rodada (calcular_pontos_f1_por_rodada_copy8 1 rodada_recalculada)) =
      [\<lparr>pr_participante_id = 1, pr_semana = 1, pontos_f1 = 25\<rparr>]
   \<and> set (da_semana 1 (pontuacoes_rodada (calcular_pontos_f1_por_rodada_app 1 rodada_recalculada)))
      \<noteq> set (da_semana 1 (pontuacoes_rodada (calcular_pontos_f1_por_rodada_copy8 1 rodada_recalculada)))"
proof -
  have a: "da_semana 1 (pontuacoes_rodada (calcular_pontos_f1_por_rodada_app 1 rodada_recalculada)) =
      [\<lparr>pr_participante_id = 1, pr_semana = 1, pontos_f1 = 25\<rparr>,
       \<lparr>pr_participante_id = 2, pr_semana = 1, pontos_f1 = 18\<rparr>]"
    by code_simp
  have b: "da_semana 1 (pontuacoes_rodada (calcular_pontos_f1_por_rodada_copy8 1 rodada_recalculada)) =
      [\<lparr>pr_participante_id = 1, pr_semana = 1, pontos_f1 = 25\<rparr>]"
    by code_simp
  show ?thesis unfolding a b using restricoes_recalculada by auto
qed

end
